theory Spec2Isabelle
  imports Main "HOL-Library.Sublist"
begin

section \<open>Exceptions, handles and worker processes\<close>

text \<open>
  The exceptions that the modelled code can see. \<open>socket.error\<close> is what the bind
  loop of \<open>main\<close> catches; \<open>KeyboardInterrupt\<close> is what \<open>recv_sigint\<close> raises;
  \<open>AttributeError\<close> and \<open>UnboundLocalError\<close> are raised by the interpreter for a
  missing attribute and for a local name read before assignment.
\<close>

datatype exn =
    KeyboardInterrupt
  | Socket_error
  | AttributeError
  | UnboundLocalError
  | Other_error

datatype signum = SIGINT | SIGTERM | SIGHUP

datatype disposition = SIG_DFL | SIG_IGN | Recv_sigint

text \<open>
  An object stored on the current process (engine, connection or metadata). The code
  tests it for truth (\<open>if getattr(currproc, 'connection', None)\<close>) and calls one
  cleanup method on it (\<open>close()\<close> or \<open>dispose()\<close>), which may raise.
\<close>

record handle =
  truthy :: bool
  cleanup_raises :: "exn option"

text \<open>
  \<open>mp.current_process()\<close>: its name, the three process-local attributes (absent
  is \<open>None\<close>) and the signal dispositions of the process.
\<close>

record process =
  name :: string
  engine :: "handle option"
  connection :: "handle option"
  metadata :: "handle option"
  signals :: "signum \<Rightarrow> disposition"

subsection \<open>setup_worker\<close>

text \<open>
  \<open>signal.signal(signal.SIGINT, signal.SIG_IGN)\<close> comes first; then the three
  attributes are assigned from \<open>database.get_astrocoffee_db(database_url)\<close>, which is
  a parameter here and may raise. The process state is returned together with the
  exception that left the function, if any.
\<close>

definition setup_worker ::
  "(string \<Rightarrow> exn + (handle \<times> handle \<times> handle)) \<Rightarrow> string \<Rightarrow> process \<Rightarrow> process \<times> exn option"
where
  "setup_worker get_astrocoffee_db database_url currproc =
     (let p1 = currproc\<lparr>signals := (signals currproc)(SIGINT := SIG_IGN)\<rparr>
      in case get_astrocoffee_db database_url of
           Inl e \<Rightarrow> (p1, Some e)
         | Inr (e, c, m) \<Rightarrow>
             (p1\<lparr>engine := Some e, connection := Some c, metadata := Some m\<rparr>, None))"

subsection \<open>close_database\<close>

datatype action =
    Del_metadata
  | Connection_close
  | Del_connection
  | Engine_dispose
  | Del_engine
  | Print string

text \<open>\<open>getattr(currproc, attr, None)\<close> in a boolean context.\<close>

definition getattr_true :: "handle option \<Rightarrow> bool" where
  "getattr_true a = (case a of None \<Rightarrow> False | Some h \<Rightarrow> truthy h)"

text \<open>The exception raised by \<open>close()\<close> or \<open>dispose()\<close> on an attribute.\<close>

definition cleanup :: "handle option \<Rightarrow> exn option" where
  "cleanup a = (case a of None \<Rightarrow> Some AttributeError | Some h \<Rightarrow> cleanup_raises h)"

definition shutdown_message :: "process \<Rightarrow> string" where
  "shutdown_message currproc = ''Shutting down database engine in process: '' @ name currproc"

text \<open>
  The function has no \<open>try\<close>: an exception of \<open>connection.close()\<close> or
  \<open>engine.dispose()\<close> leaves it at once. The result is the process state, the
  actions performed (a call that raised is listed, the \<open>del\<close> after it is not) and
  the exception that left the function, if any.
\<close>

definition close_database :: "process \<Rightarrow> process \<times> action list \<times> exn option" where
  "close_database currproc =
     (let (p1, t1) =
            (if getattr_true (metadata currproc)
             then (currproc\<lparr>metadata := None\<rparr>, [Del_metadata])
             else (currproc, []))
      in if getattr_true (connection p1) \<and> cleanup (connection p1) \<noteq> None
         then (p1, t1 @ [Connection_close], cleanup (connection p1))
         else
           let (p2, t2) =
                 (if getattr_true (connection p1)
                  then (p1\<lparr>connection := None\<rparr>, t1 @ [Connection_close, Del_connection])
                  else (p1, t1))
           in if getattr_true (engine p2) \<and> cleanup (engine p2) \<noteq> None
              then (p2, t2 @ [Engine_dispose], cleanup (engine p2))
              else
                let (p3, t3) =
                      (if getattr_true (engine p2)
                       then (p2\<lparr>engine := None\<rparr>, t2 @ [Engine_dispose, Del_engine])
                       else (p2, t2))
                in (p3, t3 @ [Print (shutdown_message p3)], None))"

text \<open>The cleanup steps in the order of the source text.\<close>

definition cleanup_plan :: "process \<Rightarrow> action list" where
  "cleanup_plan currproc =
     [Del_metadata, Connection_close, Del_connection, Engine_dispose, Del_engine,
      Print (shutdown_message currproc)]"

subsection \<open>Example processes\<close>

definition default_signals :: "signum \<Rightarrow> disposition" where
  "default_signals s = SIG_DFL"

definition fresh_process :: process where
  "fresh_process =
     \<lparr>name = ''ForkProcess-1'', engine = None, connection = None, metadata = None,
      signals = default_signals\<rparr>"

definition good_handle :: handle where
  "good_handle = \<lparr>truthy = True, cleanup_raises = None\<rparr>"

definition broken_handle :: handle where
  "broken_handle = \<lparr>truthy = True, cleanup_raises = Some Other_error\<rparr>"

definition db_ok :: "string \<Rightarrow> exn + (handle \<times> handle \<times> handle)" where
  "db_ok url = Inr (good_handle, good_handle, good_handle)"

definition db_broken_connection :: "string \<Rightarrow> exn + (handle \<times> handle \<times> handle)" where
  "db_broken_connection url = Inr (good_handle, broken_handle, good_handle)"

definition ready_worker :: process where
  "ready_worker = fst (setup_worker db_ok ''sqlite:///coffee.sqlite'' fresh_process)"

definition broken_worker :: process where
  "broken_worker = fst (setup_worker db_broken_connection ''sqlite:///coffee.sqlite'' fresh_process)"

definition partial_worker :: process where
  "partial_worker = fresh_process\<lparr>connection := Some good_handle\<rparr>"


section \<open>Worker functions: get_local_authors\<close>

text \<open>
  \<open>authors.get_local_authors\<close> is a parameter; it may raise. The dict it returns
  is an association list in iteration order, so \<open>list(local_authors.keys())\<close> is
  \<open>map fst\<close>. Reading \<open>currproc.connection\<close> or \<open>currproc.metadata\<close> on a
  process without the attribute raises \<open>AttributeError\<close>.
\<close>

definition get_local_authors ::
  "(handle \<times> handle \<Rightarrow> bool \<Rightarrow> exn + ('k \<times> 'v) list) \<Rightarrow> process \<Rightarrow> bool
     \<Rightarrow> exn + ('k list \<times> ('k \<times> 'v) list)"
where
  "get_local_authors authors_get_local_authors currproc include_affiliations =
     (case connection currproc of
        None \<Rightarrow> Inl AttributeError
      | Some conn \<Rightarrow>
          (case metadata currproc of
             None \<Rightarrow> Inl AttributeError
           | Some meta \<Rightarrow>
               (case authors_get_local_authors (conn, meta) include_affiliations of
                  Inl e \<Rightarrow> Inl e
                | Inr local_authors \<Rightarrow> Inr (map fst local_authors, local_authors))))"

definition princeton_authors :: "handle \<times> handle \<Rightarrow> bool \<Rightarrow> exn + (string \<times> string) list" where
  "princeton_authors cm include_affiliations =
     Inr [(''Spitzer, L.'', ''Princeton''), (''Bahcall, N.'', ''Princeton'')]"

section \<open>Signals of the main process\<close>

text \<open>\<open>recv_sigint(signum, stack)\<close>: raises \<open>KeyboardInterrupt\<close> for any signal.\<close>

definition recv_sigint :: "signum \<Rightarrow> exn" where
  "recv_sigint signum = KeyboardInterrupt"

datatype reaction = Ignored | Raised exn | Default_action

text \<open>What a process does when a signal reaches it, by its disposition.\<close>

definition deliver :: "(signum \<Rightarrow> disposition) \<Rightarrow> signum \<Rightarrow> reaction" where
  "deliver tbl sg =
     (case tbl sg of
        SIG_IGN \<Rightarrow> Ignored
      | Recv_sigint \<Rightarrow> Raised (recv_sigint sg)
      | SIG_DFL \<Rightarrow> Default_action)"

text \<open>
  \<open>signal.signal(signal.SIGINT, recv_sigint)\<close> and
  \<open>signal.signal(signal.SIGTERM, recv_sigint)\<close> in \<open>main\<close>.
\<close>

definition register_signals :: "(signum \<Rightarrow> disposition) \<Rightarrow> (signum \<Rightarrow> disposition)" where
  "register_signals tbl = tbl(SIGINT := Recv_sigint, SIGTERM := Recv_sigint)"

section \<open>The worker pool\<close>

record worker =
  proc :: process
  finalizer_runs :: nat

record pool =
  slots :: "worker list"
  accepting :: bool

text \<open>
  Modelled from the spec: the vendored \<open>ProcessPoolExecutor\<close>
  (\<open>astrocoffee.vendored.futures37.process\<close>) is not among the sources. Construction
  creates \<open>max_workers\<close> slots, each one process on which the initializer runs once
  before any task; the pool accepts submissions until it is shut down.
\<close>

definition new_executor ::
  "int \<Rightarrow> (process \<Rightarrow> process \<times> exn option) \<Rightarrow> (nat \<Rightarrow> process) \<Rightarrow> pool"
where
  "new_executor n initializer spawned =
     \<lparr>slots = map (\<lambda>i. \<lparr>proc = fst (initializer (spawned i)), finalizer_runs = 0\<rparr>) [0..<nat n],
      accepting = True\<rparr>"

text \<open>
  Modelled from the spec: \<open>shutdown()\<close> of the vendored \<open>ProcessPoolExecutor\<close>,
  which is not among the sources. It stops accepting new submissions and has every
  worker run its finalizer once, best-effort (an error of the finalizer is swallowed);
  a second call is a no-op.
\<close>

definition executor_shutdown ::
  "(process \<Rightarrow> process \<times> action list \<times> exn option) \<Rightarrow> pool \<Rightarrow> pool"
where
  "executor_shutdown finalizer ex =
     (if accepting ex
      then \<lparr>slots = map (\<lambda>w. \<lparr>proc = fst (finalizer (proc w)),
                                finalizer_runs = finalizer_runs w + 1\<rparr>) (slots ex),
            accepting = False\<rparr>
      else ex)"

section \<open>The server: main\<close>

record conf =
  max_workers :: int
  database_url :: string
  server_address :: string
  server_port :: int

datatype level = INFO | WARNING | ERROR

datatype event =
    LOG level string
  | Module_from_string
  | Setup_coffee_server
  | Requests_get
  | New_executor
  | Listen int
  | Signal signum
  | IOLoop_current
  | Ingest
  | New_PeriodicCallback
  | Updater_start
  | Loop_start
  | Loop_stop
  | Executor_shutdown
  | Sleep nat

text \<open>
  How \<open>main\<close> ends: it returns, \<open>sys.exit(n)\<close> is called, or an exception
  leaves it.
\<close>

datatype outcome = Returned | Sys_exit int | Uncaught exn

text \<open>
  Everything \<open>main\<close> takes from outside. The five \<open>os.path.exists\<close> calls of
  the \<open>if\<close>/\<open>elif\<close> chain are separate fields, one per call site, since the
  source asks the file system again in each condition. \<open>listen\<close> is the result of
  \<open>http_server.listen\<close> on a port (\<open>None\<close>: bound). \<open>call\<close> is the result of
  each call of the \<open>try\<close> body (\<open>None\<close>: it returned).
\<close>

record env =
  firstrun_if :: bool
  conf_if :: bool
  firstrun_elif :: bool
  conf_elif :: bool
  firstrun_elif2 :: bool
  module_from_string :: "exn + conf"
  setup_coffee_server :: "exn option"
  darwin :: bool
  get_astrocoffee_db :: "string \<Rightarrow> exn + (handle \<times> handle \<times> handle)"
  spawned :: "nat \<Rightarrow> process"
  listen :: "int \<Rightarrow> exn option"
  call :: "event \<Rightarrow> exn option"

subsection \<open>Loading the configuration (lines 162 to 189)\<close>

definition load_config :: "env \<Rightarrow> event list \<times> (outcome + conf)" where
  "load_config ev =
     (if firstrun_if ev \<and> conf_if ev then
        (case module_from_string ev of
           Inl e \<Rightarrow> ([LOG INFO ''Loading config from'', Module_from_string], Inl (Uncaught e))
         | Inr CONF \<Rightarrow> ([LOG INFO ''Loading config from'', Module_from_string], Inr CONF))
      else if firstrun_elif ev \<and> \<not> conf_elif ev then
        ([LOG ERROR ''No config file found in basedir''], Inl (Sys_exit 1))
      else if \<not> firstrun_elif2 ev then
        (case setup_coffee_server ev of
           Some e \<Rightarrow>
             ([LOG WARNING ''Generating a new config file'', Setup_coffee_server],
              Inl (Uncaught e))
         | None \<Rightarrow>
             (case module_from_string ev of
                Inl e \<Rightarrow>
                  ([LOG WARNING ''Generating a new config file'', Setup_coffee_server,
                    Module_from_string], Inl (Uncaught e))
              | Inr CONF \<Rightarrow>
                  ([LOG WARNING ''Generating a new config file'', Setup_coffee_server,
                    Module_from_string], Inr CONF)))
      else
        ([LOG ERROR ''Could not load the expected config file''], Inl (Sys_exit 1)))"

subsection \<open>Binding a port (lines 384 to 407)\<close>

text \<open>
  The \<open>while\<close> loop. Its state is \<open>portok\<close>, \<open>serverport\<close> and \<open>thistry\<close>;
  the body assigns \<open>portok\<close> and \<open>serverport\<close> only, so \<open>thistry\<close> is passed on
  as it is. An exception other than \<open>socket.error\<close> leaves the loop. The loop need
  not end, so not returning is the value \<open>None\<close>.
\<close>

partial_function (option) bind_loop ::
  "(int \<Rightarrow> exn option) \<Rightarrow> bool \<Rightarrow> int \<Rightarrow> nat \<Rightarrow> nat \<Rightarrow> event list
     \<Rightarrow> (bool \<times> int \<times> event list \<times> exn option) option"
where
  "bind_loop lsn portok serverport thistry maxtries tr =
     (if \<not> portok \<and> thistry < maxtries then
        (case lsn serverport of
           None \<Rightarrow> bind_loop lsn True serverport thistry maxtries (tr @ [Listen serverport])
         | Some e \<Rightarrow>
             if e = Socket_error then
               bind_loop lsn portok (serverport + 1) thistry maxtries
                 (tr @ [Listen serverport, LOG WARNING ''is already in use, trying port''])
             else Some (portok, serverport, tr @ [Listen serverport], Some e))
      else Some (portok, serverport, tr, None))"

definition bind_port :: "(int \<Rightarrow> exn option) \<Rightarrow> conf \<Rightarrow> (event list \<times> (outcome + int)) option" where
  "bind_port lsn CONF =
     (case bind_loop lsn False (server_port CONF) 0 10 [] of
        None \<Rightarrow> None
      | Some (portok, serverport, tr, raised) \<Rightarrow>
          (case raised of
             Some e \<Rightarrow> Some (tr, Inl (Uncaught e))
           | None \<Rightarrow>
               if \<not> portok then
                 Some (tr @ [LOG ERROR ''could not find a free port after 10 tries, giving up''],
                       Inl (Sys_exit 1))
               else
                 Some (tr @ [LOG INFO ''Started coffee-server. listening on'',
                             LOG INFO ''Background worker processes'',
                             LOG INFO ''The current base directory is''],
                       Inr serverport)))"

subsection \<open>Serving and shutting down (lines 414 to 445)\<close>

text \<open>
  The attributes of a tornado \<open>IOLoop\<close> object (class \<open>IOLoop\<close> of
  \<open>tornado/ioloop.py\<close>, the module imported at line 50). \<open>PeriodicCallback\<close>
  is a class of the module \<open>tornado.ioloop\<close>; it is not an attribute of
  \<open>IOLoop\<close>, and \<open>IOLoop\<close> has no \<open>__getattr__\<close>.
\<close>

definition IOLoop_attributes :: "string list" where
  "IOLoop_attributes =
     [''configure'', ''instance'', ''install'', ''clear_instance'', ''current'',
      ''make_current'', ''clear_current'', ''configurable_base'', ''configurable_default'',
      ''initialize'', ''close'', ''add_handler'', ''update_handler'', ''remove_handler'',
      ''start'', ''stop'', ''run_sync'', ''time'', ''add_timeout'', ''call_later'',
      ''call_at'', ''remove_timeout'', ''add_callback'', ''add_callback_from_signal'',
      ''spawn_callback'', ''add_future'', ''run_in_executor'', ''set_default_executor'',
      ''split_fd'', ''close_fd'']"

text \<open>Attribute lookup \<open>obj.attr\<close>: \<open>AttributeError\<close> when the object has no such attribute.\<close>

definition getattr :: "string list \<Rightarrow> string \<Rightarrow> exn option" where
  "getattr attributes attr = (if attr \<in> set attributes then None else Some AttributeError)"

text \<open>
  A step of the \<open>try\<close> body is a call, whose result is given by the environment, or
  the lookup of an attribute on \<open>loop\<close>. Steps run one after the other until one
  raises; a call that raised is in the trace.
\<close>

datatype step = Call event | Getattr_loop string

fun run_steps :: "(event \<Rightarrow> exn option) \<Rightarrow> step list \<Rightarrow> event list \<times> exn option" where
  "run_steps c [] = ([], None)"
| "run_steps c (Call x # xs) =
     (case c x of
        Some e \<Rightarrow> ([x], Some e)
      | None \<Rightarrow> (case run_steps c xs of (tr, r) \<Rightarrow> (x # tr, r)))"
| "run_steps c (Getattr_loop attr # xs) =
     (case getattr IOLoop_attributes attr of
        Some e \<Rightarrow> ([], Some e)
      | None \<Rightarrow> run_steps c xs)"

text \<open>
  The body of the \<open>try\<close>: \<open>IOLoop.current()\<close>, \<open>periodic_arxiv_update_fn()\<close>,
  \<open>loop.PeriodicCallback(...)\<close> (an attribute lookup on \<open>loop\<close>, then the call),
  \<open>periodic_arxiv_updater.start()\<close>, \<open>loop.start()\<close>.
\<close>

definition try_body :: "step list" where
  "try_body =
     [Call IOLoop_current, Call Ingest,
      Getattr_loop ''PeriodicCallback'', Call New_PeriodicCallback,
      Call Updater_start,
      Getattr_loop ''start'', Call Loop_start]"

text \<open>
  Only \<open>KeyboardInterrupt\<close> is caught. The handler reads \<open>loop\<close>, which is
  unbound when \<open>IOLoop.current()\<close> itself was interrupted. After the \<open>try\<close>
  statement come \<open>EXECUTOR.shutdown()\<close> and \<open>time.sleep(2)\<close>.
\<close>

definition serve :: "(event \<Rightarrow> exn option) \<Rightarrow> pool \<Rightarrow> event list \<times> pool \<times> outcome" where
  "serve c EXECUTOR =
     (case run_steps c try_body of
        (tr, None) \<Rightarrow>
          (tr @ [Executor_shutdown, Sleep 2], executor_shutdown close_database EXECUTOR, Returned)
      | (tr, Some e) \<Rightarrow>
          if e = KeyboardInterrupt then
            if c IOLoop_current \<noteq> None then
              (tr @ [LOG INFO ''received Ctrl-C: shutting down...''], EXECUTOR,
               Uncaught UnboundLocalError)
            else
              (tr @ [LOG INFO ''received Ctrl-C: shutting down...'', Loop_stop,
                     Executor_shutdown, Sleep 2],
               executor_shutdown close_database EXECUTOR, Returned)
          else (tr, EXECUTOR, Uncaught e))"

subsection \<open>main\<close>

definition main :: "env \<Rightarrow> (event list \<times> outcome) option" where
  "main ev =
     (case load_config ev of
        (tr1, Inl out) \<Rightarrow> Some (tr1, out)
      | (tr1, Inr CONF) \<Rightarrow>
          (let tr2 = tr1 @ (if darwin ev then [Requests_get] else []) @ [New_executor];
               EXECUTOR = new_executor (max_workers CONF)
                            (setup_worker (get_astrocoffee_db ev) (database_url CONF))
                            (spawned ev)
           in case bind_port (listen ev) CONF of
                None \<Rightarrow> None
              | Some (tr3, Inl out) \<Rightarrow> Some (tr2 @ tr3, out)
              | Some (tr3, Inr serverport) \<Rightarrow>
                  (case serve (call ev) EXECUTOR of
                     (tr4, EXECUTOR', out) \<Rightarrow>
                       Some (tr2 @ tr3 @ [Signal SIGINT, Signal SIGTERM] @ tr4, out))))"

section \<open>The ingest job\<close>

datatype store_error = Duplicate_insert

text \<open>
  Modelled from the spec: the backend store behind \<open>arxivupdate\<close> is not among the
  sources. Entries carry a natural identifying key (listing date and identifier);
  inserting an entry whose key is already stored is a duplicate-insert error.
\<close>

definition store_insert :: "'k \<times> 'v \<Rightarrow> ('k \<times> 'v) list \<Rightarrow> store_error + ('k \<times> 'v) list" where
  "store_insert e store =
     (if fst e \<in> fst ` set store then Inl Duplicate_insert else Inr (store @ [e]))"

text \<open>
  Modelled from the spec: \<open>arxivupdate.periodic_arxiv_update\<close> is not among the
  sources. Section 4.4: the job takes the entries fetched from the external source,
  diffs them against the already-stored entries by key, and persists only the new ones.
\<close>

fun persist_new :: "('k \<times> 'v) list \<Rightarrow> ('k \<times> 'v) list \<Rightarrow> store_error + ('k \<times> 'v) list" where
  "persist_new [] store = Inr store"
| "persist_new (e # es) store =
     (if fst e \<in> fst ` set store then persist_new es store
      else (case store_insert e store of
              Inl err \<Rightarrow> Inl err
            | Inr store' \<Rightarrow> persist_new es store'))"

text \<open>
  Modelled from the spec: a failed fetch is logged and leaves the store as it is
  (section 6, fetch boundary); otherwise the fetched entries are ingested.
\<close>

definition periodic_arxiv_update ::
  "exn + ('k \<times> 'v) list \<Rightarrow> ('k \<times> 'v) list \<Rightarrow> store_error + ('k \<times> 'v) list"
where
  "periodic_arxiv_update fetched store =
     (case fetched of Inl e \<Rightarrow> Inr store | Inr entries \<Rightarrow> persist_new entries store)"
section \<open>Predicates and example inputs used by the theorems\<close>

text \<open>The cleanup method of the attribute, if the attribute is there, does not raise.\<close>

definition quiet :: "handle option \<Rightarrow> bool" where
  "quiet a = (case a of None \<Rightarrow> True | Some h \<Rightarrow> cleanup_raises h = None)"

text \<open>The events that are bind attempts.\<close>

fun is_listen :: "event \<Rightarrow> bool" where
  "is_listen (Listen p) = True"
| "is_listen x = False"

definition busy_until_5015 :: "int \<Rightarrow> exn option" where
  "busy_until_5015 p = (if p < 5015 then Some Socket_error else None)"

definition all_busy :: "int \<Rightarrow> exn option" where
  "all_busy p = Some Socket_error"

definition example_conf :: conf where
  "example_conf = \<lparr>max_workers = 2, database_url = ''sqlite:///coffee.sqlite'',
     server_address = ''127.0.0.1'', server_port = 5005\<rparr>"

text \<open>Every call of the \<open>try\<close> body returns.\<close>

definition calls_ok :: "event \<Rightarrow> exn option" where
  "calls_ok x = None"

text \<open>
  The signal \<open>sg\<close> reaches the main process, with the handlers of \<open>main\<close>
  registered, while the call \<open>x\<close> is running; every other call returns.
\<close>

definition interrupt_during :: "signum \<Rightarrow> event \<Rightarrow> event \<Rightarrow> exn option" where
  "interrupt_during sg x y =
     (if y = x
      then (case deliver (register_signals default_signals) sg of
              Raised e \<Rightarrow> Some e
            | Ignored \<Rightarrow> None
            | Default_action \<Rightarrow> None)
      else None)"

definition spawn_fresh :: "nat \<Rightarrow> process" where
  "spawn_fresh i = fresh_process"

definition free_port :: "int \<Rightarrow> exn option" where
  "free_port p = None"

definition normal_env :: env where
  "normal_env =
     \<lparr>firstrun_if = True, conf_if = True, firstrun_elif = True, conf_elif = True,
      firstrun_elif2 = True, module_from_string = Inr example_conf,
      setup_coffee_server = None, darwin = False, get_astrocoffee_db = db_ok,
      spawned = spawn_fresh, listen = free_port, call = calls_ok\<rparr>"

definition missing_conf_env :: env where
  "missing_conf_env = normal_env\<lparr>conf_if := False, conf_elif := False\<rparr>"

text \<open>
  The answers of \<open>os.path.exists\<close> change between the conditions: the config
  file is reported absent by the \<open>if\<close> and present by the \<open>elif\<close>.
\<close>

definition racing_env :: env where
  "racing_env = normal_env\<lparr>conf_if := False\<rparr>"

definition loader_fails_env :: env where
  "loader_fails_env = normal_env\<lparr>module_from_string := Inl Other_error\<rparr>"

definition setup_fails_env :: env where
  "setup_fails_env =
     normal_env\<lparr>firstrun_if := False, firstrun_elif := False, firstrun_elif2 := False,
                setup_coffee_server := Some Other_error\<rparr>"

definition firstrun_loader_fails_env :: env where
  "firstrun_loader_fails_env =
     normal_env\<lparr>firstrun_if := False, firstrun_elif := False, firstrun_elif2 := False,
                module_from_string := Inl Other_error\<rparr>"

definition sigint_in_current_env :: env where
  "sigint_in_current_env = normal_env\<lparr>call := interrupt_during SIGINT IOLoop_current\<rparr>"

definition sigterm_in_ingest_env :: env where
  "sigterm_in_ingest_env = normal_env\<lparr>call := interrupt_during SIGTERM Ingest\<rparr>"

definition stored_entries :: "((string \<times> string) \<times> string) list" where
  "stored_entries = [((''2019-07-01'', ''1907.00001''), ''A''), ((''2019-07-01'', ''1907.00002''), ''B'')]"

definition fetched_entries :: "((string \<times> string) \<times> string) list" where
  "fetched_entries =
     [((''2019-07-01'', ''1907.00001''), ''A''), ((''2019-07-02'', ''1907.00003''), ''C''),
      ((''2019-07-01'', ''1907.00002''), ''B''), ((''2019-07-02'', ''1907.00004''), ''D''),
      ((''2019-07-02'', ''1907.00005''), ''E'')]"

text \<open>The trace of a normal startup up to and including the signal registration.\<close>

definition startup_trace :: "event list" where
  "startup_trace =
     [LOG INFO ''Loading config from'', Module_from_string, New_executor, Listen 5005,
      LOG INFO ''Started coffee-server. listening on'',
      LOG INFO ''Background worker processes'',
      LOG INFO ''The current base directory is'',
      Signal SIGINT, Signal SIGTERM]"

text \<open>
  The exception with which the cleanup call on an attribute leaves
  \<open>close_database\<close>: none when the attribute is skipped or its method returns.
\<close>

definition raised_by :: "handle option \<Rightarrow> exn option" where
  "raised_by a = (if getattr_true a then cleanup a else None)"

definition db_broken_engine :: "string \<Rightarrow> exn + (handle \<times> handle \<times> handle)" where
  "db_broken_engine url = Inr (broken_handle, good_handle, good_handle)"

definition broken_engine_worker :: process where
  "broken_engine_worker =
     fst (setup_worker db_broken_engine ''sqlite:///coffee.sqlite'' fresh_process)"

lemma bind_loop_needs_free_port:
  assumes "bind_loop lsn po sp tt mt tr = Some r"
  shows "\<not> po \<longrightarrow> tt < mt \<longrightarrow> (\<exists>p\<ge>sp. lsn p \<noteq> Some Socket_error)"
proof (rule bind_loop.raw_induct
    [where P = "\<lambda>lsn po sp tt mt tr r. \<not> po \<longrightarrow> tt < mt \<longrightarrow> (\<exists>p\<ge>sp. lsn p \<noteq> Some Socket_error)",
     OF _ assms])
  fix bl :: "(int \<Rightarrow> exn option) \<Rightarrow> bool \<Rightarrow> int \<Rightarrow> nat \<Rightarrow> nat \<Rightarrow> event list
               \<Rightarrow> (bool \<times> int \<times> event list \<times> exn option) option"
    and lsn :: "int \<Rightarrow> exn option" and po :: bool and sp :: int and tt mt :: nat
    and tr :: "event list" and r :: "bool \<times> int \<times> event list \<times> exn option"
  assume IH: "\<And>lsn po sp tt mt tr r. bl lsn po sp tt mt tr = Some r \<Longrightarrow>
           \<not> po \<longrightarrow> tt < mt \<longrightarrow> (\<exists>p\<ge>sp. lsn p \<noteq> Some Socket_error)"
  assume body: "(if \<not> po \<and> tt < mt
          then case lsn sp of
               None \<Rightarrow> bl lsn True sp tt mt (tr @ [Listen sp])
               | Some e \<Rightarrow>
                   if e = Socket_error
                   then bl lsn po (sp + 1) tt mt
                         (tr @ [Listen sp, LOG WARNING ''is already in use, trying port''])
                   else Some (po, sp, tr @ [Listen sp], Some e)
          else Some (po, sp, tr, None)) = Some r"
  show "\<not> po \<longrightarrow> tt < mt \<longrightarrow> (\<exists>p\<ge>sp. lsn p \<noteq> Some Socket_error)"
  proof (intro impI)
    assume a: "\<not> po" "tt < mt"
    show "\<exists>p\<ge>sp. lsn p \<noteq> Some Socket_error"
    proof (cases "lsn sp = Some Socket_error")
      case True
      with a body have "bl lsn po (sp + 1) tt mt
          (tr @ [Listen sp, LOG WARNING ''is already in use, trying port'']) = Some r"
        by simp
      from IH[OF this] a obtain p where "p \<ge> sp + 1" "lsn p \<noteq> Some Socket_error"
        by blast
      then show ?thesis by (intro exI[of _ p]) simp
    next
      case False
      then show ?thesis by (intro exI[of _ sp]) simp
    qed
  qed
qed

lemma bind_loop_events:
  assumes "bind_loop lsn po sp tt mt tr = Some r"
  shows "set (fst (snd (snd r))) \<subseteq> set tr \<union> range Listen \<union> range (LOG WARNING)"
proof (rule bind_loop.raw_induct
    [where P = "\<lambda>lsn po sp tt mt tr r. set (fst (snd (snd r))) \<subseteq> set tr \<union> range Listen \<union> range (LOG WARNING)",
     OF _ assms])
  fix bl :: "(int \<Rightarrow> exn option) \<Rightarrow> bool \<Rightarrow> int \<Rightarrow> nat \<Rightarrow> nat \<Rightarrow> event list
               \<Rightarrow> (bool \<times> int \<times> event list \<times> exn option) option"
    and lsn :: "int \<Rightarrow> exn option" and po :: bool and sp :: int and tt mt :: nat
    and tr :: "event list" and r :: "bool \<times> int \<times> event list \<times> exn option"
  assume IH: "\<And>lsn po sp tt mt tr r. bl lsn po sp tt mt tr = Some r \<Longrightarrow>
           set (fst (snd (snd r))) \<subseteq> set tr \<union> range Listen \<union> range (LOG WARNING)"
  assume body: "(if \<not> po \<and> tt < mt
          then case lsn sp of
               None \<Rightarrow> bl lsn True sp tt mt (tr @ [Listen sp])
               | Some e \<Rightarrow>
                   if e = Socket_error
                   then bl lsn po (sp + 1) tt mt
                         (tr @ [Listen sp, LOG WARNING ''is already in use, trying port''])
                   else Some (po, sp, tr @ [Listen sp], Some e)
          else Some (po, sp, tr, None)) = Some r"
  show "set (fst (snd (snd r))) \<subseteq> set tr \<union> range Listen \<union> range (LOG WARNING)"
  proof (cases "\<not> po \<and> tt < mt")
    case False
    with body show ?thesis by auto
  next
    case True
    show ?thesis
    proof (cases "lsn sp")
      case None
      with True body have "bl lsn True sp tt mt (tr @ [Listen sp]) = Some r" by simp
      from IH[OF this] show ?thesis by auto
    next
      case (Some e)
      show ?thesis
      proof (cases "e = Socket_error")
        case True
        with \<open>\<not> po \<and> tt < mt\<close> Some body have "bl lsn po (sp + 1) tt mt
          (tr @ [Listen sp, LOG WARNING ''is already in use, trying port'']) = Some r"
          by simp
        from IH[OF this] show ?thesis by auto
      next
        case False
        with \<open>\<not> po \<and> tt < mt\<close> Some body show ?thesis by auto
      qed
    qed
  qed
qed

section \<open>Worker lifecycle hooks\<close>

lemmas example_defs =
  broken_worker_def ready_worker_def partial_worker_def setup_worker_def
  db_broken_connection_def db_ok_def fresh_process_def good_handle_def broken_handle_def
  getattr_true_def cleanup_def shutdown_message_def default_signals_def quiet_def

lemma close_database_cases:
  "close_database p =
     (if getattr_true (connection p) \<and> cleanup (connection p) \<noteq> None
      then (p\<lparr>metadata := (if getattr_true (metadata p) then None else metadata p)\<rparr>,
            (if getattr_true (metadata p) then [Del_metadata] else []) @ [Connection_close],
            cleanup (connection p))
      else if getattr_true (engine p) \<and> cleanup (engine p) \<noteq> None
      then (p\<lparr>metadata := (if getattr_true (metadata p) then None else metadata p),
              connection := (if getattr_true (connection p) then None else connection p)\<rparr>,
            (if getattr_true (metadata p) then [Del_metadata] else []) @
            (if getattr_true (connection p) then [Connection_close, Del_connection] else []) @
            [Engine_dispose],
            cleanup (engine p))
      else (p\<lparr>metadata := (if getattr_true (metadata p) then None else metadata p),
              connection := (if getattr_true (connection p) then None else connection p),
              engine := (if getattr_true (engine p) then None else engine p)\<rparr>,
            (if getattr_true (metadata p) then [Del_metadata] else []) @
            (if getattr_true (connection p) then [Connection_close, Del_connection] else []) @
            (if getattr_true (engine p) then [Engine_dispose, Del_engine] else []) @
            [Print (shutdown_message p)],
            None))"
  by (auto simp add: close_database_def shutdown_message_def Let_def)


lemma raised_by_None:
  "raised_by a = None \<Longrightarrow> \<not> (getattr_true a \<and> cleanup a \<noteq> None)"
  by (simp add: raised_by_def split: if_splits)

lemma raised_by_Some:
  "raised_by a = Some e \<Longrightarrow> getattr_true a \<and> cleanup a = Some e"
  by (simp add: raised_by_def split: if_splits)

lemma close_database_returns:
  assumes "raised_by (connection p) = None" and "raised_by (engine p) = None"
  shows "close_database p =
      (p\<lparr>metadata := (if getattr_true (metadata p) then None else metadata p),
         connection := (if getattr_true (connection p) then None else connection p),
         engine := (if getattr_true (engine p) then None else engine p)\<rparr>,
       (if getattr_true (metadata p) then [Del_metadata] else []) @
       (if getattr_true (connection p) then [Connection_close, Del_connection] else []) @
       (if getattr_true (engine p) then [Engine_dispose, Del_engine] else []) @
       [Print (shutdown_message p)],
       None)"
  using raised_by_None[OF assms(1)] raised_by_None[OF assms(2)]
  by (simp only: close_database_cases if_False)

lemma close_database_connection_raises:
  assumes "raised_by (connection p) = Some e"
  shows "close_database p =
      (p\<lparr>metadata := (if getattr_true (metadata p) then None else metadata p)\<rparr>,
       (if getattr_true (metadata p) then [Del_metadata] else []) @ [Connection_close],
       Some e)"
  using raised_by_Some[OF assms] by (simp add: close_database_cases)

lemma close_database_engine_raises:
  assumes "raised_by (connection p) = None" and "raised_by (engine p) = Some e"
  shows "close_database p =
      (p\<lparr>metadata := (if getattr_true (metadata p) then None else metadata p),
         connection := (if getattr_true (connection p) then None else connection p)\<rparr>,
       (if getattr_true (metadata p) then [Del_metadata] else []) @
       (if getattr_true (connection p) then [Connection_close, Del_connection] else []) @
       [Engine_dispose],
       Some e)"
proof -
  from raised_by_None[OF assms(1)]
  have c: "\<not> (getattr_true (connection p) \<and> cleanup (connection p) \<noteq> None)" .
  from raised_by_Some[OF assms(2)]
  have e: "getattr_true (engine p) \<and> cleanup (engine p) \<noteq> None" "cleanup (engine p) = Some e"
    by simp_all
  from c e show ?thesis by (auto simp add: close_database_cases)
qed

lemma close_database_in_order: "subseq (fst (snd (close_database p))) (cleanup_plan p)"
  by (simp add: close_database_cases cleanup_plan_def)

text \<open>
  A connection whose \<open>close()\<close> raises: the exception leaves \<open>close_database\<close>
  after the metadata was released, and neither the engine is disposed nor the completion
  line printed.
\<close>

theorem close_database_raises_counterexample:
  "snd (close_database broken_worker) = ([Del_metadata, Connection_close], Some Other_error)"
  by (simp add: close_database_cases example_defs)

text \<open>
  Claim C2, as amended. For every worker process state, \<open>close_database\<close> performs
  its cleanup steps on the attributes that are present, in the order release the
  metadata, close the connection, dispose the engine, print the completion line.
  When neither \<open>close()\<close> nor \<open>dispose()\<close> raises, it performs exactly these
  steps (all of the cleanup plan when the three attributes are present), removes the
  attributes it acted on and returns normally. An exception of
  \<open>connection.close()\<close> or of \<open>engine.dispose()\<close> is propagated to the caller:
  the raising call is the last action, the attribute it was called on stays, and the
  later steps, the completion line among them, are not performed.
\<close>

theorem close_database_order:
  "(raised_by (connection p) = None \<and> raised_by (engine p) = None \<longrightarrow>
      close_database p =
        (p\<lparr>metadata := (if getattr_true (metadata p) then None else metadata p),
           connection := (if getattr_true (connection p) then None else connection p),
           engine := (if getattr_true (engine p) then None else engine p)\<rparr>,
         (if getattr_true (metadata p) then [Del_metadata] else []) @
         (if getattr_true (connection p) then [Connection_close, Del_connection] else []) @
         (if getattr_true (engine p) then [Engine_dispose, Del_engine] else []) @
         [Print (shutdown_message p)],
         None)) \<and>
   (getattr_true (metadata p) \<and> getattr_true (connection p) \<and> getattr_true (engine p) \<and>
    raised_by (connection p) = None \<and> raised_by (engine p) = None \<longrightarrow>
      close_database p =
        (p\<lparr>metadata := None, connection := None, engine := None\<rparr>, cleanup_plan p, None)) \<and>
   (raised_by (connection p) = Some e \<longrightarrow>
      close_database p =
        (p\<lparr>metadata := (if getattr_true (metadata p) then None else metadata p)\<rparr>,
         (if getattr_true (metadata p) then [Del_metadata] else []) @ [Connection_close],
         Some e)) \<and>
   (raised_by (connection p) = None \<and> raised_by (engine p) = Some e \<longrightarrow>
      close_database p =
        (p\<lparr>metadata := (if getattr_true (metadata p) then None else metadata p),
           connection := (if getattr_true (connection p) then None else connection p)\<rparr>,
         (if getattr_true (metadata p) then [Del_metadata] else []) @
         (if getattr_true (connection p) then [Connection_close, Del_connection] else []) @
         [Engine_dispose],
         Some e)) \<and>
   subseq (fst (snd (close_database p))) (cleanup_plan p)"
proof (intro conjI impI)
  assume "raised_by (connection p) = None \<and> raised_by (engine p) = None"
  then show "close_database p =
        (p\<lparr>metadata := (if getattr_true (metadata p) then None else metadata p),
           connection := (if getattr_true (connection p) then None else connection p),
           engine := (if getattr_true (engine p) then None else engine p)\<rparr>,
         (if getattr_true (metadata p) then [Del_metadata] else []) @
         (if getattr_true (connection p) then [Connection_close, Del_connection] else []) @
         (if getattr_true (engine p) then [Engine_dispose, Del_engine] else []) @
         [Print (shutdown_message p)],
         None)"
    by (elim conjE) (rule close_database_returns)
next
  assume a: "getattr_true (metadata p) \<and> getattr_true (connection p) \<and>
    getattr_true (engine p) \<and> raised_by (connection p) = None \<and> raised_by (engine p) = None"
  then have "close_database p =
        (p\<lparr>metadata := (if getattr_true (metadata p) then None else metadata p),
           connection := (if getattr_true (connection p) then None else connection p),
           engine := (if getattr_true (engine p) then None else engine p)\<rparr>,
         (if getattr_true (metadata p) then [Del_metadata] else []) @
         (if getattr_true (connection p) then [Connection_close, Del_connection] else []) @
         (if getattr_true (engine p) then [Engine_dispose, Del_engine] else []) @
         [Print (shutdown_message p)],
         None)"
    by (elim conjE) (rule close_database_returns)
  with a show "close_database p =
        (p\<lparr>metadata := None, connection := None, engine := None\<rparr>, cleanup_plan p, None)"
    by (simp add: cleanup_plan_def)
next
  assume "raised_by (connection p) = Some e"
  then show "close_database p =
        (p\<lparr>metadata := (if getattr_true (metadata p) then None else metadata p)\<rparr>,
         (if getattr_true (metadata p) then [Del_metadata] else []) @ [Connection_close],
         Some e)"
    by (rule close_database_connection_raises)
next
  assume "raised_by (connection p) = None \<and> raised_by (engine p) = Some e"
  then show "close_database p =
        (p\<lparr>metadata := (if getattr_true (metadata p) then None else metadata p),
           connection := (if getattr_true (connection p) then None else connection p)\<rparr>,
         (if getattr_true (metadata p) then [Del_metadata] else []) @
         (if getattr_true (connection p) then [Connection_close, Del_connection] else []) @
         [Engine_dispose],
         Some e)"
    by (elim conjE) (rule close_database_engine_raises)
next
  show "subseq (fst (snd (close_database p))) (cleanup_plan p)"
    by (rule close_database_in_order)
qed

theorem close_database_order_witness:
  "raised_by (connection ready_worker) = None \<and> raised_by (engine ready_worker) = None \<and>
   snd (close_database ready_worker) = (cleanup_plan ready_worker, None) \<and>
   getattr_true (metadata (fst (close_database ready_worker))) = False \<and>
   raised_by (connection broken_worker) = Some Other_error \<and>
   snd (close_database broken_worker) = ([Del_metadata, Connection_close], Some Other_error) \<and>
   raised_by (connection broken_engine_worker) = None \<and>
   raised_by (engine broken_engine_worker) = Some Other_error \<and>
   snd (close_database broken_engine_worker) =
     ([Del_metadata, Connection_close, Del_connection, Engine_dispose], Some Other_error)"
proof -
  have g: "getattr_true (metadata ready_worker) \<and> getattr_true (connection ready_worker) \<and>
    getattr_true (engine ready_worker) \<and>
    raised_by (connection ready_worker) = None \<and> raised_by (engine ready_worker) = None"
    by (simp add: example_defs raised_by_def)
  from close_database_order[of ready_worker Other_error, THEN conjunct2, THEN conjunct1] g
  have r: "close_database ready_worker =
        (ready_worker\<lparr>metadata := None, connection := None, engine := None\<rparr>,
         cleanup_plan ready_worker, None)"
    by (rule mp)
  have b: "raised_by (connection broken_worker) = Some Other_error"
    by (simp add: example_defs raised_by_def)
  from close_database_order[of broken_worker Other_error, THEN conjunct2, THEN conjunct2,
      THEN conjunct1] b
  have rb: "close_database broken_worker =
        (broken_worker\<lparr>metadata := (if getattr_true (metadata broken_worker) then None
                                      else metadata broken_worker)\<rparr>,
         (if getattr_true (metadata broken_worker) then [Del_metadata] else []) @
         [Connection_close],
         Some Other_error)"
    by (rule mp)
  have gb: "getattr_true (metadata broken_worker)" "getattr_true (metadata broken_engine_worker)"
    "getattr_true (connection broken_engine_worker)"
    by (simp_all add: example_defs broken_engine_worker_def db_broken_engine_def)
  have e: "raised_by (connection broken_engine_worker) = None \<and>
    raised_by (engine broken_engine_worker) = Some Other_error"
    by (simp add: example_defs raised_by_def broken_engine_worker_def db_broken_engine_def)
  from close_database_order[of broken_engine_worker Other_error, THEN conjunct2,
      THEN conjunct2, THEN conjunct2, THEN conjunct1] e
  have re: "close_database broken_engine_worker =
        (broken_engine_worker\<lparr>
           metadata := (if getattr_true (metadata broken_engine_worker) then None
                        else metadata broken_engine_worker),
           connection := (if getattr_true (connection broken_engine_worker) then None
                          else connection broken_engine_worker)\<rparr>,
         (if getattr_true (metadata broken_engine_worker) then [Del_metadata] else []) @
         (if getattr_true (connection broken_engine_worker)
          then [Connection_close, Del_connection] else []) @
         [Engine_dispose],
         Some Other_error)"
    by (rule mp)
  have n: "getattr_true None = False" by (simp add: getattr_true_def)
  from g b e gb show ?thesis by (simp add: r rb re n)
qed

text \<open>
  After \<open>setup_worker\<close> on a process with default dispositions, \<open>SIGTERM\<close>
  still has its default disposition: it is not ignored.
\<close>

theorem setup_worker_sigterm_counterexample:
  "signals (fst (setup_worker db_ok ''sqlite:///coffee.sqlite'' fresh_process)) SIGTERM = SIG_DFL"
  by (simp add: example_defs)

text \<open>
  Claim C3, as amended. After \<open>setup_worker\<close> has run, whether or not the database
  call raised, the disposition of \<open>SIGINT\<close> in the worker is \<open>SIG_IGN\<close>, so an
  interrupt signal is ignored there; the disposition of every other signal is what it
  was before.
\<close>

theorem setup_worker_ignores_sigint:
  "signals (fst (setup_worker get_db url p)) = (signals p)(SIGINT := SIG_IGN) \<and>
   deliver (signals (fst (setup_worker get_db url p))) SIGINT = Ignored"
  by (simp add: setup_worker_def deliver_def Let_def split: sum.splits prod.splits)








section \<open>Worker functions\<close>

text \<open>
  Claim C10. On a worker whose connection and metadata are set, when the backend
  returns a mapping, \<open>get_local_authors\<close> returns the pair of the list of that
  mapping's keys, in the mapping's iteration order, and the mapping itself; the two
  components have the same length.
\<close>

theorem get_local_authors_shape:
  "connection currproc = Some conn \<and> metadata currproc = Some meta \<and>
   backend (conn, meta) include_affiliations = Inr local_authors \<longrightarrow>
     get_local_authors backend currproc include_affiliations =
       Inr (map fst local_authors, local_authors) \<and>
     length (map fst local_authors) = length local_authors"
  by (simp add: get_local_authors_def)

theorem get_local_authors_shape_witness:
  "connection ready_worker = Some good_handle \<and> metadata ready_worker = Some good_handle \<and>
   get_local_authors princeton_authors ready_worker True =
     Inr ([''Spitzer, L.'', ''Bahcall, N.''],
          [(''Spitzer, L.'', ''Princeton''), (''Bahcall, N.'', ''Princeton'')])"
proof -
  have h: "connection ready_worker = Some good_handle \<and> metadata ready_worker = Some good_handle \<and>
     princeton_authors (good_handle, good_handle) True =
       Inr [(''Spitzer, L.'', ''Princeton''), (''Bahcall, N.'', ''Princeton'')]"
    by (simp add: example_defs princeton_authors_def)
  from h get_local_authors_shape[of ready_worker good_handle good_handle princeton_authors True
      "[(''Spitzer, L.'', ''Princeton''), (''Bahcall, N.'', ''Princeton'')]"]
  show ?thesis by simp
qed

section \<open>Port binding\<close>

lemma bind_port_all_busy: "bind_port all_busy CONF = None"
proof (cases "bind_loop all_busy False (server_port CONF) 0 10 []")
  case None
  then show ?thesis by (simp add: bind_port_def)
next
  case (Some r)
  from bind_loop_needs_free_port[OF this] show ?thesis by (simp add: all_busy_def)
qed

lemma bind_port_events:
  assumes "bind_port lsn CONF = Some (tr, r)"
  shows "set tr \<subseteq> range Listen \<union> range (LOG WARNING) \<union> range (LOG ERROR) \<union> range (LOG INFO)"
proof -
  from assms obtain po sp tr0 ra
    where b: "bind_loop lsn False (server_port CONF) 0 10 [] = Some (po, sp, tr0, ra)"
    by (auto simp: bind_port_def split: option.splits)
  from bind_loop_events[OF b] have "set tr0 \<subseteq> range Listen \<union> range (LOG WARNING)" by simp
  with assms b show ?thesis
    by (auto simp: bind_port_def split: option.splits if_splits)
qed

text \<open>
  Claim C1, evaluated on the code. With ports 5005 to 5014 in use and 5015 free, the
  bind loop started at the configured port 5005 binds port 5015 on its eleventh attempt:
  a port outside the range 5005 to 5014, and no exit after ten failures. With every port
  in use the loop does not return at all. The counter \<open>thistry\<close> is never
  incremented, so the bound \<open>maxtries = 10\<close> never applies.
\<close>

theorem bind_port_unbounded:
  "map_option (\<lambda>(tr, r). (length (filter is_listen tr), r))
     (bind_port busy_until_5015 example_conf) = Some (11, Inr 5015) \<and>
   bind_port all_busy example_conf = None"
proof -
  have "map_option (\<lambda>(portok, serverport, tr, raised).
            (portok, serverport, length (filter is_listen tr), raised))
          (bind_loop busy_until_5015 False 5005 0 10 []) = Some (True, 5015, 11, None)"
    by (simp add: bind_loop.simps busy_until_5015_def)
  then have "map_option (\<lambda>(tr, r). (length (filter is_listen tr), r))
     (bind_port busy_until_5015 example_conf) = Some (11, Inr 5015)"
    by (auto simp: bind_port_def example_conf_def split: option.splits)
  then show ?thesis by (simp add: bind_port_all_busy)
qed

section \<open>The ingest job is idempotent\<close>

lemma persist_new_total:
  "\<exists>s'. persist_new es s = Inr s' \<and> fst ` set s' = fst ` set s \<union> fst ` set es"
proof (induction es arbitrary: s)
  case Nil
  then show ?case by simp
next
  case (Cons e es)
  show ?case
  proof (cases "fst e \<in> fst ` set s")
    case True
    then have "fst ` set s \<union> fst ` set (e # es) = fst ` set s \<union> fst ` set es"
      by auto
    with True Cons.IH[of s] show ?thesis by simp
  next
    case False
    have "fst ` set (s @ [e]) \<union> fst ` set es = fst ` set s \<union> fst ` set (e # es)"
      by auto
    with False Cons.IH[of "s @ [e]"] show ?thesis by (simp add: store_insert_def)
  qed
qed

lemma persist_new_stored:
  "fst ` set es \<subseteq> fst ` set s \<Longrightarrow> persist_new es s = Inr s"
  by (induction es) auto

text \<open>
  Claim C7. Running the ingest job twice in succession on the same fetched entries
  succeeds both times, without a duplicate-insert error, and the second run leaves the
  store, and so its entry count, unchanged.
\<close>

theorem ingest_idempotent:
  "\<exists>s1 s2. periodic_arxiv_update fetched store = Inr s1 \<and>
           periodic_arxiv_update fetched s1 = Inr s2 \<and>
           length s2 = length s1 \<and> s2 = s1"
proof (cases fetched)
  case (Inl e)
  then show ?thesis by (simp add: periodic_arxiv_update_def)
next
  case (Inr es)
  from persist_new_total[of es store] obtain s1
    where s1: "persist_new es store = Inr s1" "fst ` set s1 = fst ` set store \<union> fst ` set es"
    by blast
  then have "persist_new es s1 = Inr s1" by (intro persist_new_stored) simp
  with s1 Inr show ?thesis by (simp add: periodic_arxiv_update_def)
qed

theorem ingest_idempotent_witness:
  "\<exists>s1. periodic_arxiv_update (Inr fetched_entries) stored_entries = Inr s1 \<and>
        periodic_arxiv_update (Inr fetched_entries) s1 = Inr s1"
  using ingest_idempotent[of "Inr fetched_entries" stored_entries] by blast

text \<open>Three new entries and two already stored: exactly three rows are inserted.\<close>

lemma ingest_scenario:
  "periodic_arxiv_update (Inr fetched_entries) stored_entries =
     Inr (stored_entries @
          [((''2019-07-02'', ''1907.00003''), ''C''), ((''2019-07-02'', ''1907.00004''), ''D''),
           ((''2019-07-02'', ''1907.00005''), ''E'')])"
  by (simp add: periodic_arxiv_update_def fetched_entries_def stored_entries_def store_insert_def)

section \<open>Fatal configuration errors\<close>

lemma load_config_events:
  "load_config ev = (tr, r) \<Longrightarrow>
     set tr \<subseteq> range (LOG INFO) \<union> range (LOG WARNING) \<union> range (LOG ERROR) \<union>
              {Module_from_string, Setup_coffee_server}"
  by (auto simp: load_config_def split: if_splits sum.splits option.splits)

lemma load_config_fatal:
  "load_config ev = (tr, Inl out) \<Longrightarrow>
     (\<exists>msg. tr = [LOG ERROR msg] \<and> out = Sys_exit 1) \<or> (\<exists>e. out = Uncaught e)"
  by (auto simp: load_config_def split: if_splits sum.splits option.splits)

lemma main_config_failed:
  assumes "load_config ev = (tr, Inl out)"
  shows "main ev = Some (tr, out)"
  using assms by (simp add: main_def)

text \<open>
  The marker and the config file exist, and the config loader raises: \<open>main\<close> ends
  with the uncaught exception; no error is logged and \<open>sys.exit\<close> is not called.
\<close>

theorem loader_raises_counterexample:
  "main loader_fails_env =
     Some ([LOG INFO ''Loading config from'', Module_from_string], Uncaught Other_error)"
  by (simp add: main_def load_config_def loader_fails_env_def normal_env_def)

text \<open>
  Claim C8, as amended. When the first-run marker exists and the config file does not,
  \<open>main\<close> logs an error and calls \<open>sys.exit(1)\<close>, and that is all it does. The
  same holds in the final \<open>else\<close> branch of the configuration check, reached when
  none of the three conditions before it holds. When the config loader or the first-run
  setup raises, no error is logged and \<open>sys.exit\<close> is not called: the exception
  leaves \<open>main\<close> uncaught. However the configuration step fails, \<open>main\<close> ends
  there without returning normally, before the worker pool is constructed and before any
  port is bound.
\<close>

theorem fatal_config_error:
  "(firstrun_if ev \<and> \<not> conf_if ev \<and> firstrun_elif ev \<and> \<not> conf_elif ev \<longrightarrow>
      main ev = Some ([LOG ERROR ''No config file found in basedir''], Sys_exit 1)) \<and>
   (\<not> (firstrun_if ev \<and> conf_if ev) \<and> \<not> (firstrun_elif ev \<and> \<not> conf_elif ev) \<and>
    firstrun_elif2 ev \<longrightarrow>
      main ev = Some ([LOG ERROR ''Could not load the expected config file''], Sys_exit 1)) \<and>
   (firstrun_if ev \<and> conf_if ev \<and> module_from_string ev = Inl e \<longrightarrow>
      main ev = Some ([LOG INFO ''Loading config from'', Module_from_string], Uncaught e)) \<and>
   (\<not> (firstrun_if ev \<and> conf_if ev) \<and> \<not> (firstrun_elif ev \<and> \<not> conf_elif ev) \<and>
    \<not> firstrun_elif2 ev \<and> setup_coffee_server ev = Some e \<longrightarrow>
      main ev = Some ([LOG WARNING ''Generating a new config file'', Setup_coffee_server],
                      Uncaught e)) \<and>
   (\<not> (firstrun_if ev \<and> conf_if ev) \<and> \<not> (firstrun_elif ev \<and> \<not> conf_elif ev) \<and>
    \<not> firstrun_elif2 ev \<and> setup_coffee_server ev = None \<and>
    module_from_string ev = Inl e \<longrightarrow>
      main ev = Some ([LOG WARNING ''Generating a new config file'', Setup_coffee_server,
                       Module_from_string], Uncaught e)) \<and>
   (load_config ev = (tr, Inl out) \<longrightarrow>
      main ev = Some (tr, out) \<and> out \<noteq> Returned \<and>
      New_executor \<notin> set tr \<and> (\<forall>p. Listen p \<notin> set tr))"
proof (intro conjI impI allI)
  assume "firstrun_if ev \<and> \<not> conf_if ev \<and> firstrun_elif ev \<and> \<not> conf_elif ev"
  then have "load_config ev = ([LOG ERROR ''No config file found in basedir''], Inl (Sys_exit 1))"
    by (auto simp add: load_config_def)
  then show "main ev = Some ([LOG ERROR ''No config file found in basedir''], Sys_exit 1)"
    by (rule main_config_failed)
next
  assume "\<not> (firstrun_if ev \<and> conf_if ev) \<and> \<not> (firstrun_elif ev \<and> \<not> conf_elif ev) \<and>
    firstrun_elif2 ev"
  then have "load_config ev =
      ([LOG ERROR ''Could not load the expected config file''], Inl (Sys_exit 1))"
    by (auto simp add: load_config_def)
  then show "main ev =
      Some ([LOG ERROR ''Could not load the expected config file''], Sys_exit 1)"
    by (rule main_config_failed)
next
  assume "firstrun_if ev \<and> conf_if ev \<and> module_from_string ev = Inl e"
  then have "load_config ev =
      ([LOG INFO ''Loading config from'', Module_from_string], Inl (Uncaught e))"
    by (auto simp add: load_config_def)
  then show "main ev = Some ([LOG INFO ''Loading config from'', Module_from_string], Uncaught e)"
    by (rule main_config_failed)
next
  assume "\<not> (firstrun_if ev \<and> conf_if ev) \<and> \<not> (firstrun_elif ev \<and> \<not> conf_elif ev) \<and>
    \<not> firstrun_elif2 ev \<and> setup_coffee_server ev = Some e"
  then have "load_config ev =
      ([LOG WARNING ''Generating a new config file'', Setup_coffee_server], Inl (Uncaught e))"
    by (auto simp add: load_config_def)
  then show "main ev =
      Some ([LOG WARNING ''Generating a new config file'', Setup_coffee_server], Uncaught e)"
    by (rule main_config_failed)
next
  assume "\<not> (firstrun_if ev \<and> conf_if ev) \<and> \<not> (firstrun_elif ev \<and> \<not> conf_elif ev) \<and>
    \<not> firstrun_elif2 ev \<and> setup_coffee_server ev = None \<and> module_from_string ev = Inl e"
  then have "load_config ev =
      ([LOG WARNING ''Generating a new config file'', Setup_coffee_server, Module_from_string],
       Inl (Uncaught e))"
    by (auto simp add: load_config_def)
  then show "main ev =
      Some ([LOG WARNING ''Generating a new config file'', Setup_coffee_server,
             Module_from_string], Uncaught e)"
    by (rule main_config_failed)
next
  assume l: "load_config ev = (tr, Inl out)"
  show "main ev = Some (tr, out)" by (rule main_config_failed[OF l])
  from load_config_fatal[OF l] show "out \<noteq> Returned" by auto
  from load_config_events[OF l] show "New_executor \<notin> set tr" by auto
  fix p
  from load_config_events[OF l] show "Listen p \<notin> set tr" by auto
qed

theorem fatal_config_error_witness:
  "main missing_conf_env = Some ([LOG ERROR ''No config file found in basedir''], Sys_exit 1) \<and>
   main racing_env = Some ([LOG ERROR ''Could not load the expected config file''], Sys_exit 1) \<and>
   main loader_fails_env =
     Some ([LOG INFO ''Loading config from'', Module_from_string], Uncaught Other_error) \<and>
   main setup_fails_env =
     Some ([LOG WARNING ''Generating a new config file'', Setup_coffee_server],
           Uncaught Other_error) \<and>
   main firstrun_loader_fails_env =
     Some ([LOG WARNING ''Generating a new config file'', Setup_coffee_server,
            Module_from_string], Uncaught Other_error) \<and>
   load_config missing_conf_env =
     ([LOG ERROR ''No config file found in basedir''], Inl (Sys_exit 1)) \<and>
   New_executor \<notin> set [LOG ERROR ''No config file found in basedir'']"
proof -
  have h1: "firstrun_if missing_conf_env \<and> \<not> conf_if missing_conf_env \<and>
     firstrun_elif missing_conf_env \<and> \<not> conf_elif missing_conf_env"
    by (simp add: missing_conf_env_def normal_env_def)
  have h2: "\<not> (firstrun_if racing_env \<and> conf_if racing_env) \<and>
     \<not> (firstrun_elif racing_env \<and> \<not> conf_elif racing_env) \<and> firstrun_elif2 racing_env"
    by (simp add: racing_env_def normal_env_def)
  have h3: "firstrun_if loader_fails_env \<and> conf_if loader_fails_env \<and>
     module_from_string loader_fails_env = Inl Other_error"
    by (simp add: loader_fails_env_def normal_env_def)
  have h4: "\<not> (firstrun_if setup_fails_env \<and> conf_if setup_fails_env) \<and>
     \<not> (firstrun_elif setup_fails_env \<and> \<not> conf_elif setup_fails_env) \<and>
     \<not> firstrun_elif2 setup_fails_env \<and> setup_coffee_server setup_fails_env = Some Other_error"
    by (simp add: setup_fails_env_def normal_env_def)
  have h5: "\<not> (firstrun_if firstrun_loader_fails_env \<and> conf_if firstrun_loader_fails_env) \<and>
     \<not> (firstrun_elif firstrun_loader_fails_env \<and> \<not> conf_elif firstrun_loader_fails_env) \<and>
     \<not> firstrun_elif2 firstrun_loader_fails_env \<and>
     setup_coffee_server firstrun_loader_fails_env = None \<and>
     module_from_string firstrun_loader_fails_env = Inl Other_error"
    by (simp add: firstrun_loader_fails_env_def normal_env_def)
  have h6: "load_config missing_conf_env =
      ([LOG ERROR ''No config file found in basedir''], Inl (Sys_exit 1))"
    by (simp add: load_config_def missing_conf_env_def normal_env_def)
  note t = fatal_config_error
  from t[of missing_conf_env Other_error "[]" Returned, THEN conjunct1] h1
  have c1: "main missing_conf_env =
      Some ([LOG ERROR ''No config file found in basedir''], Sys_exit 1)"
    by (rule mp)
  from t[of racing_env Other_error "[]" Returned, THEN conjunct2, THEN conjunct1] h2
  have c2: "main racing_env =
      Some ([LOG ERROR ''Could not load the expected config file''], Sys_exit 1)"
    by (rule mp)
  from t[of loader_fails_env Other_error "[]" Returned, THEN conjunct2, THEN conjunct2,
      THEN conjunct1] h3
  have c3: "main loader_fails_env =
      Some ([LOG INFO ''Loading config from'', Module_from_string], Uncaught Other_error)"
    by (rule mp)
  from t[of setup_fails_env Other_error "[]" Returned, THEN conjunct2, THEN conjunct2,
      THEN conjunct2, THEN conjunct1] h4
  have c4: "main setup_fails_env =
      Some ([LOG WARNING ''Generating a new config file'', Setup_coffee_server],
            Uncaught Other_error)"
    by (rule mp)
  from t[of firstrun_loader_fails_env Other_error "[]" Returned, THEN conjunct2,
      THEN conjunct2, THEN conjunct2, THEN conjunct2, THEN conjunct1] h5
  have c5: "main firstrun_loader_fails_env =
      Some ([LOG WARNING ''Generating a new config file'', Setup_coffee_server,
             Module_from_string], Uncaught Other_error)"
    by (rule mp)
  from t[of missing_conf_env Other_error "[LOG ERROR ''No config file found in basedir'']"
      "Sys_exit 1", THEN conjunct2, THEN conjunct2, THEN conjunct2, THEN conjunct2,
      THEN conjunct2] h6
  have c6: "main missing_conf_env =
      Some ([LOG ERROR ''No config file found in basedir''], Sys_exit 1) \<and>
    Sys_exit 1 \<noteq> Returned \<and>
    New_executor \<notin> set [LOG ERROR ''No config file found in basedir''] \<and>
    (\<forall>p. Listen p \<notin> set [LOG ERROR ''No config file found in basedir''])"
    by (rule mp)
  from c1 c2 c3 c4 c5 h6 c6 show ?thesis by (intro conjI) (elim conjE, assumption)+
qed

section \<open>Startup and shutdown\<close>

lemma run_steps_try_body:
  "run_steps c try_body =
     (if c IOLoop_current \<noteq> None then ([IOLoop_current], c IOLoop_current)
      else if c Ingest \<noteq> None then ([IOLoop_current, Ingest], c Ingest)
      else ([IOLoop_current, Ingest], Some AttributeError))"
  by (auto simp: try_body_def getattr_def IOLoop_attributes_def split: option.splits)

lemma serve_cases:
  "serve c ex =
     (if c IOLoop_current = Some KeyboardInterrupt then
        ([IOLoop_current, LOG INFO ''received Ctrl-C: shutting down...''], ex,
         Uncaught UnboundLocalError)
      else if c IOLoop_current \<noteq> None then
        ([IOLoop_current], ex, Uncaught (the (c IOLoop_current)))
      else if c Ingest = Some KeyboardInterrupt then
        ([IOLoop_current, Ingest, LOG INFO ''received Ctrl-C: shutting down...'', Loop_stop,
          Executor_shutdown, Sleep 2],
         executor_shutdown close_database ex, Returned)
      else if c Ingest \<noteq> None then
        ([IOLoop_current, Ingest], ex, Uncaught (the (c Ingest)))
      else ([IOLoop_current, Ingest], ex, Uncaught AttributeError))"
  by (auto simp: serve_def run_steps_try_body)

lemma serve_events:
  "set (fst (serve c ex)) \<subseteq>
     {IOLoop_current, Ingest, LOG INFO ''received Ctrl-C: shutting down...'', Loop_stop,
      Executor_shutdown, Sleep 2}"
  by (simp add: serve_cases)

text \<open>
  No run of \<open>main\<close> creates or starts the periodic callback or starts the event
  loop.
\<close>

lemma main_never_serves:
  assumes "main ev = Some (tr, out)"
  shows "New_PeriodicCallback \<notin> set tr \<and> Updater_start \<notin> set tr \<and> Loop_start \<notin> set tr"
proof -
  obtain tr1 r1 where l: "load_config ev = (tr1, r1)" by (cases "load_config ev")
  note e1 = load_config_events[OF l]
  show ?thesis
  proof (cases r1)
    case (Inl o1)
    with l assms e1 show ?thesis by (auto simp: main_def)
  next
    case (Inr CONF)
    define tr2 where "tr2 = tr1 @ (if darwin ev then [Requests_get] else []) @ [New_executor]"
    define pool0 where "pool0 = new_executor (max_workers CONF)
                            (setup_worker (get_astrocoffee_db ev) (database_url CONF))
                            (spawned ev)"
    from l Inr assms obtain tr3 r3 where b: "bind_port (listen ev) CONF = Some (tr3, r3)"
      by (auto simp: main_def Let_def split: option.splits)
    note e3 = bind_port_events[OF b]
    have e2: "set tr2 \<subseteq> range (LOG INFO) \<union> range (LOG WARNING) \<union> range (LOG ERROR) \<union>
              {Module_from_string, Setup_coffee_server, Requests_get, New_executor}"
      using e1 by (auto simp: tr2_def)
    show ?thesis
    proof (cases r3)
      case (Inl o3)
      with l \<open>r1 = Inr CONF\<close> b assms have "tr = tr2 @ tr3" by (simp add: main_def tr2_def)
      with e2 e3 show ?thesis by auto
    next
      case (Inr port)
      obtain tr4 r4 where s: "serve (call ev) pool0 = (tr4, r4)"
        by (cases "serve (call ev) pool0")
      with l \<open>r1 = Inr CONF\<close> b Inr assms
      have tr: "tr = (tr2 @ tr3 @ [Signal SIGINT, Signal SIGTERM]) @ tr4"
        by (auto simp: main_def tr2_def pool0_def split: prod.splits)
      from serve_events[of "call ev" pool0] s
      have e4: "set tr4 \<subseteq>
         {IOLoop_current, Ingest, LOG INFO ''received Ctrl-C: shutting down...'', Loop_stop,
          Executor_shutdown, Sleep 2}"
        by simp
      from tr e2 e3 e4 show ?thesis by auto
    qed
  qed
qed

lemma main_started:
  assumes "firstrun_if ev" "conf_if ev" "module_from_string ev = Inr example_conf"
    "darwin ev = False" "listen ev = free_port"
  shows "main ev =
     (case serve (call ev) (new_executor 2 (setup_worker (get_astrocoffee_db ev)
                              ''sqlite:///coffee.sqlite'') (spawned ev)) of
        (tr4, EXECUTOR', out) \<Rightarrow> Some (startup_trace @ tr4, out))"
proof -
  have l: "load_config ev =
      ([LOG INFO ''Loading config from'', Module_from_string], Inr example_conf)"
    using assms by (simp add: load_config_def)
  have "bind_loop free_port False 5005 0 10 [] = Some (True, 5005, [Listen 5005], None)"
    by (simp add: bind_loop.simps free_port_def)
  then have b: "bind_port free_port example_conf =
      Some ([Listen 5005, LOG INFO ''Started coffee-server. listening on'',
             LOG INFO ''Background worker processes'',
             LOG INFO ''The current base directory is''], Inr 5005)"
    by (simp add: bind_port_def example_conf_def)
  have c: "max_workers example_conf = 2" "database_url example_conf = ''sqlite:///coffee.sqlite''"
    by (simp_all add: example_conf_def)
  show ?thesis
    using assms(4,5) by (simp add: main_def l b c startup_trace_def split: prod.splits)
qed

text \<open>
  Claim C4, evaluated on the code. On a normal startup (the configuration loads, port
  5005 is free, every external call returns) the ingest job runs once, and then
  \<open>loop.PeriodicCallback\<close> raises \<open>AttributeError\<close>: the periodic callback is
  neither created nor started, \<open>loop.start()\<close> is not reached, and \<open>main\<close> ends
  with the uncaught exception, without shutting the worker pool down.
\<close>

theorem startup_never_arms_timer:
  "main normal_env = Some (startup_trace @ [IOLoop_current, Ingest], Uncaught AttributeError)"
proof -
  have "call normal_env = calls_ok" by (simp add: normal_env_def)
  then have s: "serve (call normal_env) ex = ([IOLoop_current, Ingest], ex, Uncaught AttributeError)"
    for ex
    by (simp add: serve_cases calls_ok_def)
  have "firstrun_if normal_env" "conf_if normal_env"
    "module_from_string normal_env = Inr example_conf" "darwin normal_env = False"
    "listen normal_env = free_port"
    by (simp_all add: normal_env_def)
  from main_started[OF this] show ?thesis by (simp add: s)
qed

lemma interrupt_during_raises:
  "interrupt_during SIGINT x x = Some KeyboardInterrupt"
  "interrupt_during SIGTERM x x = Some KeyboardInterrupt"
  "y \<noteq> x \<Longrightarrow> interrupt_during sg x y = None"
  by (simp_all add: interrupt_during_def deliver_def register_signals_def recv_sigint_def)

text \<open>
  Claim C5, evaluated on the code. A \<open>SIGINT\<close> that reaches the main process while
  \<open>IOLoop.current()\<close> is running is turned into \<open>KeyboardInterrupt\<close> and caught,
  but the handler reads the unbound \<open>loop\<close>: \<open>main\<close> ends with
  \<open>UnboundLocalError\<close>, and the loop is not stopped, the worker pool not shut down
  and the grace period not waited. A \<open>SIGTERM\<close> that arrives during the first ingest
  run gives the sequence of the claim: log, stop the loop, shut the pool down, sleep two
  seconds, return.
\<close>

theorem shutdown_on_interrupt:
  "main sigint_in_current_env =
     Some (startup_trace @ [IOLoop_current, LOG INFO ''received Ctrl-C: shutting down...''],
           Uncaught UnboundLocalError) \<and>
   main sigterm_in_ingest_env =
     Some (startup_trace @
           [IOLoop_current, Ingest, LOG INFO ''received Ctrl-C: shutting down...'',
            Loop_stop, Executor_shutdown, Sleep 2],
           Returned)"
proof
  have c: "call sigint_in_current_env = interrupt_during SIGINT IOLoop_current"
    by (simp add: sigint_in_current_env_def)
  have s: "serve (call sigint_in_current_env) ex =
      ([IOLoop_current, LOG INFO ''received Ctrl-C: shutting down...''], ex,
       Uncaught UnboundLocalError)" for ex
    by (simp add: c serve_cases interrupt_during_raises)
  have "firstrun_if sigint_in_current_env" "conf_if sigint_in_current_env"
    "module_from_string sigint_in_current_env = Inr example_conf"
    "darwin sigint_in_current_env = False" "listen sigint_in_current_env = free_port"
    by (simp_all add: sigint_in_current_env_def normal_env_def)
  from main_started[OF this]
  show "main sigint_in_current_env =
     Some (startup_trace @ [IOLoop_current, LOG INFO ''received Ctrl-C: shutting down...''],
           Uncaught UnboundLocalError)"
    by (simp add: s)
next
  have c: "call sigterm_in_ingest_env = interrupt_during SIGTERM Ingest"
    by (simp add: sigterm_in_ingest_env_def)
  have s: "serve (call sigterm_in_ingest_env) ex =
      ([IOLoop_current, Ingest, LOG INFO ''received Ctrl-C: shutting down...'', Loop_stop,
        Executor_shutdown, Sleep 2],
       executor_shutdown close_database ex, Returned)" for ex
    by (simp add: c serve_cases interrupt_during_raises)
  have "firstrun_if sigterm_in_ingest_env" "conf_if sigterm_in_ingest_env"
    "module_from_string sigterm_in_ingest_env = Inr example_conf"
    "darwin sigterm_in_ingest_env = False" "listen sigterm_in_ingest_env = free_port"
    by (simp_all add: sigterm_in_ingest_env_def normal_env_def)
  from main_started[OF this]
  show "main sigterm_in_ingest_env =
     Some (startup_trace @
           [IOLoop_current, Ingest, LOG INFO ''received Ctrl-C: shutting down...'',
            Loop_stop, Executor_shutdown, Sleep 2],
           Returned)"
    by (simp add: s)
qed

text \<open>
  The pool's shutdown: afterwards it accepts nothing, the finalizer has run once on each
  worker of a newly constructed pool, and a second shutdown changes nothing.
\<close>

lemma executor_shutdown_new:
  "\<not> accepting (executor_shutdown fin (new_executor n init sp)) \<and>
   map finalizer_runs (slots (executor_shutdown fin (new_executor n init sp))) =
     replicate (nat n) 1"
  by (simp add: executor_shutdown_def new_executor_def comp_def map_replicate_const)

lemma executor_shutdown_twice:
  "executor_shutdown fin (executor_shutdown fin ex) = executor_shutdown fin ex"
  by (simp add: executor_shutdown_def)

end
